theory Spec2Isabelle
  imports Main
begin

section \<open>The booking service of shelf.nu\<close>

text \<open>
  A shallow embedding of \<^verbatim>\<open>app/modules/booking/service.server.ts\<close>: the functions
  \<^verbatim>\<open>upsertBooking\<close>, \<^verbatim>\<open>getBookings\<close> and \<^verbatim>\<open>removeAssets\<close>. Each of them builds an
  argument object (\<^verbatim>\<open>data\<close>, \<^verbatim>\<open>where\<close>, \<^verbatim>\<open>skip\<close>, \<^verbatim>\<open>take\<close>) and hands it to one
  call of \<^verbatim>\<open>db.booking\<close>. The argument objects are embedded from the source, line by
  line. The client \<^verbatim>\<open>db\<close> is imported from \<^verbatim>\<open>~/database\<close>, which is not among the
  source files; its operations are modelled from the specification and are marked as
  such.

  Identifiers are strings, as in the source. A timestamp (\<^verbatim>\<open>Date\<close>) is the integer
  number of milliseconds it stands for. An optional or omitted property of an object is
  an \<open>option\<close>, \<open>None\<close> standing for \<^verbatim>\<open>undefined\<close> and \<^verbatim>\<open>null\<close> alike. The numbers
  \<^verbatim>\<open>page\<close> and \<^verbatim>\<open>perPage\<close> are integers; the arithmetic on them is that of the
  numbers of JavaScript, which is exact up to \<open>2 ^ 53\<close> and rounds beyond. Strings are
  strings of ASCII.
\<close>

subsection \<open>Data model\<close>

type_synonym ident = string

datatype BookingStatus =
  DRAFT | RESERVED | ONGOING | OVERDUE | COMPLETE | ARCHIVED | CANCELLED

text \<open>
  A row of the booking table together with its asset relation (the ids of the assets
  connected to it). The fields \<^verbatim>\<open>from\<close> and \<^verbatim>\<open>to\<close> are written \<open>b_from\<close> and \<open>b_to\<close>;
  they, and the name, are absent until a payload supplies them
  (\<^verbatim>\<open>upsertBooking\<close> takes a \<^verbatim>\<open>Partial\<close> payload).
\<close>

record booking =
  b_id :: ident
  b_name :: "string option"
  b_from :: "int option"
  b_to :: "int option"
  b_status :: BookingStatus
  b_organizationId :: ident
  b_creatorId :: ident
  b_custodianUserId :: "ident option"
  b_custodianTeamMemberId :: "ident option"
  b_assets :: "ident list"
  b_createdAt :: int

text \<open>
  The relation directives of \<^verbatim>\<open>Prisma.BookingUpdateInput\<close> that the service writes:
  \<^verbatim>\<open>{ connect: { id } }\<close> and \<^verbatim>\<open>{ disconnect: true }\<close> for a to-one relation,
  \<^verbatim>\<open>{ connect: [{ id }, ...] }\<close> and \<^verbatim>\<open>{ disconnect: [{ id }, ...] }\<close> for the assets.
\<close>

datatype one_relation = Connect ident | Disconnect

datatype many_relation = ConnectMany "ident list" | DisconnectMany "ident list"

record BookingUpdateInput =
  d_name :: "string option"
  d_from :: "int option"
  d_to :: "int option"
  d_status :: "BookingStatus option"
  d_assets :: "many_relation option"
  d_custodianUser :: "one_relation option"
  d_custodianTeamMember :: "one_relation option"
  d_creator :: "ident option"
  d_organization :: "ident option"

text \<open>The payload of \<^verbatim>\<open>upsertBooking\<close> (lines 16 to 29): every property may be omitted.\<close>

record upsert_payload =
  p_from :: "int option"
  p_id :: "ident option"
  p_creatorId :: "ident option"
  p_name :: "string option"
  p_organizationId :: "ident option"
  p_status :: "BookingStatus option"
  p_to :: "int option"
  p_custodianTeamMemberId :: "ident option"
  p_custodianUserId :: "ident option"
  p_assetIds :: "ident list option"


text \<open>The call that a mutating service function issues to the store, and its data.\<close>

datatype db_call =
  BookingUpdate ident BookingUpdateInput
| BookingCreate BookingUpdateInput

fun call_data :: "db_call \<Rightarrow> BookingUpdateInput" where
  "call_data (BookingUpdate i d) = d"
| "call_data (BookingCreate d) = d"

text \<open>
  The filter \<^verbatim>\<open>Prisma.BookingWhereInput\<close> as far as \<^verbatim>\<open>getBookings\<close> fills it in:
  \<^verbatim>\<open>name: { contains, mode: "insensitive" }\<close>, \<^verbatim>\<open>status: { in }\<close>,
  \<^verbatim>\<open>assets: { some: { id: { in } } }\<close>, \<^verbatim>\<open>id: { notIn }\<close>, and \<^verbatim>\<open>OR\<close>, a list of
  clauses that each constrain \<^verbatim>\<open>from\<close> and \<^verbatim>\<open>to\<close>.
\<close>

datatype date_filter = Lte int | Gte int

record date_clause =
  c_from :: date_filter
  c_to :: date_filter

record BookingWhereInput =
  w_organizationId :: ident
  w_name :: "string option"
  w_custodianTeamMemberId :: "ident option"
  w_custodianUserId :: "ident option"
  w_status :: "BookingStatus list option"
  w_assets :: "ident list option"
  w_id :: "ident list option"
  w_OR :: "date_clause list option"

text \<open>The arguments of \<^verbatim>\<open>getBookings\<close> (lines 92 to 122) and its result (line 185).\<close>

record bookings_args =
  a_organizationId :: ident
  a_page :: "int option"
  a_perPage :: "int option"
  a_search :: "string option"
  a_statuses :: "BookingStatus list option"
  a_custodianUserId :: "ident option"
  a_custodianTeamMemberId :: "ident option"
  a_assetIds :: "ident list option"
  a_bookingTo :: "int option"
  a_excludeBookingIds :: "ident list option"
  a_bookingFrom :: "int option"

record bookings_result =
  r_bookings :: "booking list"
  r_bookingCount :: nat

datatype error = NotFound | ValidationError | StoreError

subsection \<open>JavaScript conditions\<close>

text \<open>
  \<^verbatim>\<open>if (s)\<close> on an optional string holds when the string is there and is not empty;
  \<open>supplied\<close> gives the string in that case. \<^verbatim>\<open>if (xs?.length)\<close> on an optional array
  holds when the array is there and is not empty.
\<close>

definition supplied :: "string option \<Rightarrow> string option" where
  "supplied s = (case s of None \<Rightarrow> None | Some v \<Rightarrow> if v = [] then None else Some v)"

definition nonempty :: "'a list option \<Rightarrow> 'a list option" where
  "nonempty xs = (case xs of None \<Rightarrow> None | Some v \<Rightarrow> if v = [] then None else Some v)"

text \<open>
  \<^verbatim>\<open>String.prototype.trim\<close>, on the white space of ASCII (the white space beyond ASCII
  that it strips as well, such as the no-break space, does not occur in the strings
  modelled here).
\<close>

definition is_space :: "char \<Rightarrow> bool" where
  "is_space c = (c \<in> set [CHR 0x09, CHR 0x0A, CHR 0x0B, CHR 0x0C, CHR 0x0D, CHR 0x20])"

definition trim :: "string \<Rightarrow> string" where
  "trim s = rev (dropWhile is_space (rev (dropWhile is_space s)))"

text \<open>
  A number of JavaScript is a double. The result of a subtraction or a product of
  integers is the double nearest to the exact result, the one with the even significand
  of 53 bits when two are equally near: \<open>to_double\<close> (for results below \<open>2 ^ 1024\<close>,
  where a double exists). \<open>bits n\<close> is the number of binary digits of \<open>n\<close>.
\<close>

fun bits :: "nat \<Rightarrow> nat" where
  "bits n = (if n = 0 then 0 else Suc (bits (n div 2)))"

declare bits.simps [simp del]

definition round_nat :: "nat \<Rightarrow> nat" where
  "round_nat m =
     (if m < 2 ^ 53 then m
      else (let e = bits m - 53; q = m div 2 ^ e; r = m mod 2 ^ e; h = 2 ^ (e - 1)
            in (if r > h \<or> (r = h \<and> odd q) then q + 1 else q) * 2 ^ e))"

definition to_double :: "int \<Rightarrow> int" where
  "to_double n = (if n < 0 then - int (round_nat (nat (- n))) else int (round_nat (nat n)))"

subsection \<open>upsertBooking\<close>

text \<open>
  Lines 31 to 63: \<^verbatim>\<open>rest\<close> holds \<^verbatim>\<open>from\<close>, \<^verbatim>\<open>name\<close>, \<^verbatim>\<open>status\<close> and \<^verbatim>\<open>to\<close>; the asset
  and custodian directives are added to it.
\<close>

definition upsert_assets :: "upsert_payload \<Rightarrow> BookingUpdateInput \<Rightarrow> BookingUpdateInput" where
  "upsert_assets p data =
     (case nonempty (p_assetIds p) of
        Some assetIds \<Rightarrow> data\<lparr>d_assets := Some (ConnectMany assetIds)\<rparr>
      | None \<Rightarrow> data)"

definition upsert_custodian :: "upsert_payload \<Rightarrow> BookingUpdateInput \<Rightarrow> BookingUpdateInput" where
  "upsert_custodian p data =
     (case supplied (p_custodianUserId p) of
        Some custodianUserId \<Rightarrow>
          data\<lparr>d_custodianUser := Some (Connect custodianUserId),
               d_custodianTeamMember := Some Disconnect\<rparr>
      | None \<Rightarrow>
         (case supplied (p_custodianTeamMemberId p) of
            Some custodianTeamMemberId \<Rightarrow>
              data\<lparr>d_custodianTeamMember := Some (Connect custodianTeamMemberId),
                   d_custodianUser := Some Disconnect\<rparr>
          | None \<Rightarrow> data))"

definition upsert_data :: "upsert_payload \<Rightarrow> BookingUpdateInput" where
  "upsert_data p =
     upsert_custodian p (upsert_assets p
       \<lparr>d_name = p_name p, d_from = p_from p, d_to = p_to p, d_status = p_status p,
        d_assets = None, d_custodianUser = None, d_custodianTeamMember = None,
        d_creator = None, d_organization = None\<rparr>)"

text \<open>Lines 75 to 84: the creator and the organization are linked on creation only.\<close>

definition upsert_create_data :: "upsert_payload \<Rightarrow> BookingUpdateInput" where
  "upsert_create_data p =
     (upsert_data p)\<lparr>d_creator := supplied (p_creatorId p),
                     d_organization := supplied (p_organizationId p)\<rparr>"

text \<open>Lines 65 to 89: the one call to the store that \<^verbatim>\<open>upsertBooking\<close> issues.\<close>

definition upsertBooking_call :: "upsert_payload \<Rightarrow> db_call" where
  "upsertBooking_call p =
     (case supplied (p_id p) of
        Some i \<Rightarrow> BookingUpdate i (upsert_data p)
      | None \<Rightarrow> BookingCreate (upsert_create_data p))"

subsection \<open>removeAssets\<close>


subsection \<open>getBookings: skip, take and where\<close>

definition getBookings_page :: "bookings_args \<Rightarrow> int" where
  "getBookings_page a = (case a_page a of None \<Rightarrow> 1 | Some n \<Rightarrow> n)"

definition getBookings_perPage :: "bookings_args \<Rightarrow> int" where
  "getBookings_perPage a = (case a_perPage a of None \<Rightarrow> 8 | Some n \<Rightarrow> n)"

text \<open>
  Lines 123 and 124. The difference and the product of line 123 are numbers of
  JavaScript; the comparisons are exact.
\<close>

definition getBookings_skip :: "bookings_args \<Rightarrow> int" where
  "getBookings_skip a =
     (if getBookings_page a > 1
      then to_double (to_double (getBookings_page a - 1) * getBookings_perPage a)
      else 0)"

definition getBookings_take :: "bookings_args \<Rightarrow> int" where
  "getBookings_take a =
     (if getBookings_perPage a \<ge> 1 \<and> getBookings_perPage a \<le> 100
      then getBookings_perPage a else 20)"

text \<open>Lines 162 to 171: the two clauses of \<^verbatim>\<open>where.OR\<close>.\<close>

definition overlap_clauses :: "int \<Rightarrow> int \<Rightarrow> date_clause list" where
  "overlap_clauses bookingFrom bookingTo =
     [\<lparr>c_from = Lte bookingTo, c_to = Gte bookingFrom\<rparr>,
      \<lparr>c_from = Gte bookingFrom, c_to = Lte bookingTo\<rparr>]"

text \<open>
  Lines 127 to 172. A \<^verbatim>\<open>Date\<close> is an object and so always true in a condition:
  \<^verbatim>\<open>bookingFrom && bookingTo\<close> holds exactly when both are there.
\<close>

definition getBookings_where :: "bookings_args \<Rightarrow> BookingWhereInput" where
  "getBookings_where a =
     \<lparr>w_organizationId = a_organizationId a,
      w_name =
        (case a_search a of
           None \<Rightarrow> None
         | Some search \<Rightarrow> if length (trim search) \<noteq> 0 then Some (trim search) else None),
      w_custodianTeamMemberId = supplied (a_custodianTeamMemberId a),
      w_custodianUserId = supplied (a_custodianUserId a),
      w_status = nonempty (a_statuses a),
      w_assets = nonempty (a_assetIds a),
      w_id = nonempty (a_excludeBookingIds a),
      w_OR =
        (case a_bookingFrom a of
           None \<Rightarrow> None
         | Some bookingFrom \<Rightarrow>
            (case a_bookingTo a of
               None \<Rightarrow> None
             | Some bookingTo \<Rightarrow> Some (overlap_clauses bookingFrom bookingTo)))\<rparr>"

subsection \<open>The store\<close>

text \<open>
  Modelled from the spec: the Booking Store behind \<^verbatim>\<open>db.booking\<close> (section 2: it
  persists bookings and their relations and owns the referential constraints). Besides the
  bookings it holds the ids of the assets, users, team members and organizations that a
  booking can be linked to, and a clock for \<^verbatim>\<open>createdAt\<close>.
\<close>

record store =
  s_bookings :: "booking list"
  s_assets :: "ident list"
  s_users :: "ident list"
  s_teamMembers :: "ident list"
  s_organizations :: "ident list"
  s_clock :: int

text \<open>Modelled from the spec: the row that a \<^verbatim>\<open>where: { id }\<close> selects, if any.\<close>

definition find_booking :: "store \<Rightarrow> ident \<Rightarrow> booking option" where
  "find_booking st i = find (\<lambda>b. b_id b = i) (s_bookings st)"

text \<open>
  Modelled from the spec: a \<^verbatim>\<open>connect\<close> directive needs the record it names
  (section 4.1: the store fails with \<^verbatim>\<open>NotFound\<close> if a referenced asset, user or
  team-member id does not exist at persistence time). A \<^verbatim>\<open>disconnect\<close> names nothing
  that has to exist.
\<close>

definition refs_exist :: "store \<Rightarrow> BookingUpdateInput \<Rightarrow> bool" where
  "refs_exist st d =
     ((case d_assets d of
         Some (ConnectMany ids) \<Rightarrow> list_all (\<lambda>x. x \<in> set (s_assets st)) ids
       | _ \<Rightarrow> True)
      \<and> (case d_custodianUser d of
            Some (Connect u) \<Rightarrow> u \<in> set (s_users st) | _ \<Rightarrow> True)
      \<and> (case d_custodianTeamMember d of
            Some (Connect t) \<Rightarrow> t \<in> set (s_teamMembers st) | _ \<Rightarrow> True)
      \<and> (case d_creator d of
            Some c \<Rightarrow> c \<in> set (s_users st) | None \<Rightarrow> True)
      \<and> (case d_organization d of
            Some g \<Rightarrow> g \<in> set (s_organizations st) | None \<Rightarrow> True))"

text \<open>
  Modelled from the spec: \<^verbatim>\<open>connect\<close> on the assets of a booking. The relation
  directives are mutations of the join table (section 9): \<^verbatim>\<open>connect\<close> inserts the
  rows for the given ids, beside the rows that are there; \<^verbatim>\<open>disconnect\<close> deletes rows.
\<close>

definition connect_assets :: "ident list \<Rightarrow> ident list \<Rightarrow> ident list" where
  "connect_assets ids old = old @ filter (\<lambda>x. x \<notin> set old) (remdups ids)"

text \<open>
  Modelled from the spec: \<^verbatim>\<open>disconnect\<close> on the assets of a booking (section 4.3): the
  given associations go, the others stay, and one that is not there is passed over.
\<close>

definition disconnect_assets :: "ident list \<Rightarrow> ident list \<Rightarrow> ident list" where
  "disconnect_assets ids old = filter (\<lambda>x. x \<notin> set ids) old"

text \<open>
  Modelled from the spec: what \<^verbatim>\<open>data\<close> does to one booking. A scalar field that is
  given replaces the stored one, a field that is not given is kept; a to-one \<^verbatim>\<open>connect\<close>
  sets the foreign key and \<^verbatim>\<open>disconnect: true\<close> clears it.
\<close>

definition apply_data :: "BookingUpdateInput \<Rightarrow> booking \<Rightarrow> booking" where
  "apply_data d b =
     b\<lparr>b_name := (case d_name d of None \<Rightarrow> b_name b | Some n \<Rightarrow> Some n),
       b_from := (case d_from d of None \<Rightarrow> b_from b | Some t \<Rightarrow> Some t),
       b_to := (case d_to d of None \<Rightarrow> b_to b | Some t \<Rightarrow> Some t),
       b_status := (case d_status d of None \<Rightarrow> b_status b | Some s \<Rightarrow> s),
       b_assets :=
         (case d_assets d of
            None \<Rightarrow> b_assets b
          | Some (ConnectMany ids) \<Rightarrow> connect_assets ids (b_assets b)
          | Some (DisconnectMany ids) \<Rightarrow> disconnect_assets ids (b_assets b)),
       b_custodianUserId :=
         (case d_custodianUser d of
            None \<Rightarrow> b_custodianUserId b
          | Some (Connect u) \<Rightarrow> Some u
          | Some Disconnect \<Rightarrow> None),
       b_custodianTeamMemberId :=
         (case d_custodianTeamMember d of
            None \<Rightarrow> b_custodianTeamMemberId b
          | Some (Connect t) \<Rightarrow> Some t
          | Some Disconnect \<Rightarrow> None),
       b_creatorId := (case d_creator d of None \<Rightarrow> b_creatorId b | Some c \<Rightarrow> c),
       b_organizationId :=
         (case d_organization d of None \<Rightarrow> b_organizationId b | Some g \<Rightarrow> g)\<rparr>"

text \<open>
  Modelled from the spec: \<^verbatim>\<open>update(id, data)\<close>. It fails with \<^verbatim>\<open>NotFound\<close>, changing
  nothing, when no booking has the id or a record to connect does not exist; otherwise it
  rewrites the booking with that id and returns it.
\<close>

definition db_booking_update ::
  "store \<Rightarrow> ident \<Rightarrow> BookingUpdateInput \<Rightarrow> (error + booking) \<times> store" where
  "db_booking_update st i d =
     (case find_booking st i of
        None \<Rightarrow> (Inl NotFound, st)
      | Some b \<Rightarrow>
          if \<not> refs_exist st d then (Inl NotFound, st)
          else (Inr (apply_data d b),
                st\<lparr>s_bookings :=
                     map (\<lambda>x. if b_id x = i then apply_data d x else x) (s_bookings st)\<rparr>))"

text \<open>Modelled from the spec: booking ids are generated by the system (section 3).
  The new id is longer than every id in use.\<close>

definition fresh_id :: "store \<Rightarrow> ident" where
  "fresh_id st = replicate (Suc (fold max (map (\<lambda>b. length (b_id b)) (s_bookings st)) 0)) CHR ''b''"

text \<open>
  Modelled from the spec: the booking that a creation starts from, with the creator and
  the organization it is linked to: no name, no interval, no custodian and no assets,
  in status \<^verbatim>\<open>DRAFT\<close>, created at the time of the store's clock.
\<close>

definition new_booking :: "store \<Rightarrow> ident \<Rightarrow> ident \<Rightarrow> booking" where
  "new_booking st c g =
     \<lparr>b_id = fresh_id st, b_name = None, b_from = None, b_to = None,
      b_status = DRAFT, b_organizationId = g, b_creatorId = c,
      b_custodianUserId = None, b_custodianTeamMemberId = None,
      b_assets = [], b_createdAt = s_clock st\<rparr>"

text \<open>
  Modelled from the spec: the data of a creation can connect records but not disconnect
  any, a new booking having nothing connected. The client that the store is reached
  through refuses data for \<^verbatim>\<open>create\<close> that carry a \<^verbatim>\<open>disconnect\<close> (section 7: malformed
  fields are a \<^verbatim>\<open>ValidationError\<close>).
\<close>

definition has_disconnect :: "BookingUpdateInput \<Rightarrow> bool" where
  "has_disconnect d =
     (d_custodianUser d = Some Disconnect \<or> d_custodianTeamMember d = Some Disconnect
      \<or> (case d_assets d of Some (DisconnectMany ids) \<Rightarrow> True | _ \<Rightarrow> False))"

text \<open>
  Modelled from the spec: \<^verbatim>\<open>create(data)\<close>. Creation requires the creator and the
  organization to be linked (sections 3 and 4.1); without either, or with a
  \<^verbatim>\<open>disconnect\<close>, the call is rejected with \<^verbatim>\<open>ValidationError\<close> (section 7), and with a
  record to connect that does not exist it fails with \<^verbatim>\<open>NotFound\<close>; a failed call
  changes nothing. Otherwise \<^verbatim>\<open>data\<close> is applied to a new booking, which is stored and
  returned, and the clock moves on.
\<close>

definition db_booking_create ::
  "store \<Rightarrow> BookingUpdateInput \<Rightarrow> (error + booking) \<times> store" where
  "db_booking_create st d =
     (case d_creator d of
        None \<Rightarrow> (Inl ValidationError, st)
      | Some c \<Rightarrow>
         (case d_organization d of
            None \<Rightarrow> (Inl ValidationError, st)
          | Some g \<Rightarrow>
              if has_disconnect d then (Inl ValidationError, st)
              else if \<not> refs_exist st d then (Inl NotFound, st)
              else
                (let b = apply_data d (new_booking st c g)
                 in (Inr b, st\<lparr>s_bookings := s_bookings st @ [b],
                                s_clock := s_clock st + 1\<rparr>))))"

text \<open>Modelled from the spec: the store carries out the call it is given.\<close>

definition db_exec :: "store \<Rightarrow> db_call \<Rightarrow> (error + booking) \<times> store" where
  "db_exec st c =
     (case c of
        BookingUpdate i d \<Rightarrow> db_booking_update st i d
      | BookingCreate d \<Rightarrow> db_booking_create st d)"

text \<open>
  Modelled from the spec: the search is a case-insensitive substring match (section 4.2);
  \<open>lower\<close> folds the case of a letter of ASCII, and \<open>contains hay needle\<close> holds when
  \<open>needle\<close> occurs in \<open>hay\<close>.
\<close>

definition lower :: "char \<Rightarrow> char" where
  "lower c =
     (let n = (of_char c :: nat) in if 65 \<le> n \<and> n \<le> 90 then char_of (n + 32) else c)"

fun contains :: "string \<Rightarrow> string \<Rightarrow> bool" where
  "contains [] needle = (needle = [])"
| "contains (h # hay) needle =
     (take (length needle) (h # hay) = needle \<or> contains hay needle)"

text \<open>
  Modelled from the spec: the comparisons \<^verbatim>\<open>lte\<close> and \<^verbatim>\<open>gte\<close> of a filter on a
  timestamp. A comparison with a field that has no value does not hold.
\<close>

definition date_matches :: "date_filter \<Rightarrow> int option \<Rightarrow> bool" where
  "date_matches f v =
     (case v of
        None \<Rightarrow> False
      | Some x \<Rightarrow> (case f of Lte d \<Rightarrow> x \<le> d | Gte d \<Rightarrow> x \<ge> d))"

text \<open>
  Modelled from the spec: a clause of \<^verbatim>\<open>OR\<close> holds of the \<^verbatim>\<open>from\<close> and \<^verbatim>\<open>to\<close> of a
  booking when both its comparisons hold; the clauses are combined with OR against each
  other (section 4.2).
\<close>

definition clause_matches :: "date_clause \<Rightarrow> int option \<Rightarrow> int option \<Rightarrow> bool" where
  "clause_matches c f t = (date_matches (c_from c) f \<and> date_matches (c_to c) t)"

definition OR_matches :: "date_clause list \<Rightarrow> int option \<Rightarrow> int option \<Rightarrow> bool" where
  "OR_matches cs f t = list_ex (\<lambda>c. clause_matches c f t) cs"

text \<open>
  Modelled from the spec: how the store reads a filter (section 4.2). The booking is of
  the organization; the search matches its name; its custodians are the given ones; its
  status is in the given set; it includes one of the given assets; its id is not
  excluded; one of the clauses of \<^verbatim>\<open>OR\<close> holds. All active filters are combined with
  AND.
\<close>

definition where_matches :: "BookingWhereInput \<Rightarrow> booking \<Rightarrow> bool" where
  "where_matches w b =
     (b_organizationId b = w_organizationId w
      \<and> (case w_name w of
            None \<Rightarrow> True
          | Some s \<Rightarrow>
             (case b_name b of
                None \<Rightarrow> False
              | Some n \<Rightarrow> contains (map lower n) (map lower s)))
      \<and> (case w_custodianTeamMemberId w of
            None \<Rightarrow> True | Some t \<Rightarrow> b_custodianTeamMemberId b = Some t)
      \<and> (case w_custodianUserId w of
            None \<Rightarrow> True | Some u \<Rightarrow> b_custodianUserId b = Some u)
      \<and> (case w_status w of
            None \<Rightarrow> True | Some ss \<Rightarrow> b_status b \<in> set ss)
      \<and> (case w_assets w of
            None \<Rightarrow> True | Some ids \<Rightarrow> list_ex (\<lambda>x. x \<in> set ids) (b_assets b))
      \<and> (case w_id w of
            None \<Rightarrow> True | Some ids \<Rightarrow> b_id b \<notin> set ids)
      \<and> (case w_OR w of
            None \<Rightarrow> True | Some cs \<Rightarrow> OR_matches cs (b_from b) (b_to b)))"

text \<open>Modelled from the spec: the bookings of the store that a filter selects.\<close>

definition matching :: "store \<Rightarrow> BookingWhereInput \<Rightarrow> booking list" where
  "matching st w = filter (where_matches w) (s_bookings st)"

text \<open>
  Modelled from the spec: \<^verbatim>\<open>orderBy: { createdAt: "desc" }\<close>, ordered by creation time,
  descending (section 4.2).
\<close>

definition newest_first :: "booking list \<Rightarrow> booking list" where
  "newest_first bs = sort_key (\<lambda>b. - b_createdAt b) bs"

text \<open>
  Modelled from the spec: \<^verbatim>\<open>findMany(filter, skip, take, orderBy)\<close>. The matching
  bookings, newest first, without the first \<^verbatim>\<open>skip\<close> and cut after \<^verbatim>\<open>take\<close>; a
  negative \<^verbatim>\<open>skip\<close> is refused (\<^verbatim>\<open>getBookings\<close> passes a \<^verbatim>\<open>take\<close> from 1 to 100).
\<close>

definition db_booking_findMany ::
  "store \<Rightarrow> int \<Rightarrow> int \<Rightarrow> BookingWhereInput \<Rightarrow> error + booking list" where
  "db_booking_findMany st sk tk w =
     (if sk < 0 then Inl StoreError
      else Inr (take (nat tk) (drop (nat sk) (newest_first (matching st w)))))"

text \<open>Modelled from the spec: \<^verbatim>\<open>count(filter)\<close>, the number of matching bookings.\<close>

definition db_booking_count :: "store \<Rightarrow> BookingWhereInput \<Rightarrow> nat" where
  "db_booking_count st w = length (matching st w)"

subsection \<open>The service functions on the store\<close>

text \<open>Lines 67 to 71 and 86 to 89, and lines 193 to 201: the call is handed to the store.\<close>

definition upsertBooking :: "store \<Rightarrow> upsert_payload \<Rightarrow> (error + booking) \<times> store" where
  "upsertBooking st p = db_exec st (upsertBooking_call p)"


text \<open>Lines 174 to 185: the page and the count are read with the same filter.\<close>

definition getBookings :: "store \<Rightarrow> bookings_args \<Rightarrow> error + bookings_result" where
  "getBookings st a =
     (case db_booking_findMany st (getBookings_skip a) (getBookings_take a)
             (getBookings_where a) of
        Inl e \<Rightarrow> Inl e
      | Inr bookings \<Rightarrow>
          Inr \<lparr>r_bookings = bookings,
               r_bookingCount = db_booking_count st (getBookings_where a)\<rparr>)"



subsection \<open>Notions of the specification\<close>

text \<open>
  The general overlap test of section 4.2, \<^verbatim>\<open>from <= targetTo AND to >= targetFrom\<close>,
  on a booking; and the intersection of the booking's interval with the window, as sets
  of instants.
\<close>

definition overlaps :: "int \<Rightarrow> int \<Rightarrow> booking \<Rightarrow> bool" where
  "overlaps targetFrom targetTo b =
     (case b_from b of
        None \<Rightarrow> False
      | Some f \<Rightarrow> (case b_to b of None \<Rightarrow> False | Some t \<Rightarrow> f \<le> targetTo \<and> t \<ge> targetFrom))"

definition intersects :: "int \<Rightarrow> int \<Rightarrow> booking \<Rightarrow> bool" where
  "intersects targetFrom targetTo b =
     (case b_from b of
        None \<Rightarrow> False
      | Some f \<Rightarrow>
         (case b_to b of
            None \<Rightarrow> False
          | Some t \<Rightarrow> {f..t} \<inter> {targetFrom..targetTo} \<noteq> {}))"

text \<open>The interval of a booking is in order (section 3 notes that nothing enforces it).\<close>

definition interval_ok :: "booking \<Rightarrow> bool" where
  "interval_ok b =
     (case b_from b of
        None \<Rightarrow> True
      | Some f \<Rightarrow> (case b_to b of None \<Rightarrow> True | Some t \<Rightarrow> f \<le> t))"

text \<open>The arguments of a listing without its date range: the other filters.\<close>

definition window_free :: "bookings_args \<Rightarrow> bookings_args" where
  "window_free a = a\<lparr>a_bookingFrom := None, a_bookingTo := None\<rparr>"

text \<open>
  The bookings that pass the other filters of a listing and overlap the window.
\<close>

definition overlapping :: "store \<Rightarrow> bookings_args \<Rightarrow> int \<Rightarrow> int \<Rightarrow> booking list" where
  "overlapping st a targetFrom targetTo =
     filter (overlaps targetFrom targetTo) (matching st (getBookings_where (window_free a)))"

text \<open>A booking without the given assets; all its other fields are as they were.\<close>

definition without :: "ident list \<Rightarrow> booking \<Rightarrow> booking" where
  "without ids b = b\<lparr>b_assets := filter (\<lambda>x. x \<notin> set ids) (b_assets b)\<rparr>"

text \<open>
  The assets and the custodian that a payload names are in the store (section 4.1: the
  store fails with \<^verbatim>\<open>NotFound\<close> otherwise). The custodian that a payload names is the
  user, if one is supplied, and else the team member.
\<close>

definition known_refs :: "store \<Rightarrow> upsert_payload \<Rightarrow> bool" where
  "known_refs st p =
     ((case nonempty (p_assetIds p) of
         Some ids \<Rightarrow> list_all (\<lambda>x. x \<in> set (s_assets st)) ids
       | None \<Rightarrow> True)
      \<and> (case supplied (p_custodianUserId p) of
            Some u \<Rightarrow> u \<in> set (s_users st)
          | None \<Rightarrow>
             (case supplied (p_custodianTeamMemberId p) of
                Some t \<Rightarrow> t \<in> set (s_teamMembers st)
              | None \<Rightarrow> True)))"


subsection \<open>Example stores\<close>

text \<open>
  A store with four assets, two users, a team member and two organizations, and no
  booking yet.
\<close>

definition fresh_store :: store where
  "fresh_store =
     \<lparr>s_bookings = [], s_assets = [''1'', ''2'', ''3'', ''4''], s_users = [''u1'', ''u2''],
      s_teamMembers = [''t1''], s_organizations = [''o1'', ''o2''], s_clock = 0\<rparr>"

definition no_payload :: upsert_payload where
  "no_payload =
     \<lparr>p_from = None, p_id = None, p_creatorId = None, p_name = None,
      p_organizationId = None, p_status = None, p_to = None,
      p_custodianTeamMemberId = None, p_custodianUserId = None, p_assetIds = None\<rparr>"

definition list_all_of :: "ident \<Rightarrow> bookings_args" where
  "list_all_of org =
     \<lparr>a_organizationId = org, a_page = None, a_perPage = None, a_search = None,
      a_statuses = None, a_custodianUserId = None, a_custodianTeamMemberId = None,
      a_assetIds = None, a_bookingTo = None, a_excludeBookingIds = None,
      a_bookingFrom = None\<rparr>"

text \<open>
  The bookings of the example in section 8: A spans days 1 to 5, B spans days 10 to 12.
  The third booking ends before it starts, from day 5 to day 3.
\<close>

definition booking_A :: booking where
  "booking_A =
     \<lparr>b_id = ''A'', b_name = Some ''Camera'', b_from = Some 1, b_to = Some 5,
      b_status = RESERVED, b_organizationId = ''o1'', b_creatorId = ''u1'',
      b_custodianUserId = None, b_custodianTeamMemberId = None, b_assets = [''1''],
      b_createdAt = 0\<rparr>"

definition booking_B :: booking where
  "booking_B =
     \<lparr>b_id = ''B'', b_name = Some ''Tripod'', b_from = Some 10, b_to = Some 12,
      b_status = RESERVED, b_organizationId = ''o1'', b_creatorId = ''u1'',
      b_custodianUserId = None, b_custodianTeamMemberId = None, b_assets = [''2''],
      b_createdAt = 1\<rparr>"

definition booking_backwards :: booking where
  "booking_backwards =
     \<lparr>b_id = ''b'', b_name = Some ''Lens'', b_from = Some 5, b_to = Some 3,
      b_status = DRAFT, b_organizationId = ''o1'', b_creatorId = ''u1'',
      b_custodianUserId = None, b_custodianTeamMemberId = None, b_assets = [],
      b_createdAt = 0\<rparr>"

definition window_args :: "ident \<Rightarrow> int \<Rightarrow> int \<Rightarrow> bookings_args" where
  "window_args org targetFrom targetTo =
     (list_all_of org)\<lparr>a_bookingFrom := Some targetFrom, a_bookingTo := Some targetTo\<rparr>"

definition store_AB :: store where
  "store_AB = fresh_store\<lparr>s_bookings := [booking_A, booking_B], s_clock := 2\<rparr>"

definition backwards_payload :: upsert_payload where
  "backwards_payload =
     no_payload\<lparr>p_creatorId := Some ''u1'', p_organizationId := Some ''o1'',
                p_name := Some ''Lens'', p_from := Some 5, p_to := Some 3\<rparr>"

definition store_backwards :: store where
  "store_backwards = fresh_store\<lparr>s_bookings := [booking_backwards], s_clock := 1\<rparr>"










definition takeover_payload :: upsert_payload where
  "takeover_payload =
     no_payload\<lparr>p_id := Some ''A'', p_creatorId := Some ''u2'',
                p_organizationId := Some ''o2'', p_name := Some ''Renamed''\<rparr>"

definition draft_payload :: upsert_payload where
  "draft_payload =
     no_payload\<lparr>p_creatorId := Some ''u2'', p_organizationId := Some ''o2'',
                p_name := Some ''Draft booking''\<rparr>"

definition orphan_payload :: upsert_payload where
  "orphan_payload =
     no_payload\<lparr>p_organizationId := Some ''o1'', p_name := Some ''Draft booking''\<rparr>"






text \<open>A booking of another organization, and a store with any number of bookings.\<close>

definition booking_C :: booking where
  "booking_C = booking_B\<lparr>b_id := ''C'', b_organizationId := ''o2''\<rparr>"

definition store_AC :: store where
  "store_AC = fresh_store\<lparr>s_bookings := [booking_A, booking_C], s_clock := 2\<rparr>"

definition numbered :: "nat \<Rightarrow> booking" where
  "numbered k = booking_A\<lparr>b_id := replicate (Suc k) CHR ''x'', b_createdAt := int k\<rparr>"

definition store_many :: "nat \<Rightarrow> store" where
  "store_many n = fresh_store\<lparr>s_bookings := map numbered [0..<n], s_clock := int n\<rparr>"

definition paged :: "int \<Rightarrow> int \<Rightarrow> bookings_args" where
  "paged page perPage = (list_all_of ''o1'')\<lparr>a_page := Some page, a_perPage := Some perPage\<rparr>"

section \<open>The numbers of JavaScript\<close>

text \<open>Integers below \<open>2 ^ 53\<close> in magnitude are doubles, and the arithmetic is exact on them.\<close>

lemma to_double_exact: "\<bar>n\<bar> < 2 ^ 53 \<Longrightarrow> to_double n = n"
  by (auto simp: to_double_def round_nat_def nat_less_iff)

lemma bits_between: "2 ^ k \<le> n \<Longrightarrow> n < 2 ^ Suc k \<Longrightarrow> bits n = Suc k"
proof (induction k arbitrary: n)
  case 0
  then have "n = 1" by simp
  then show ?case by (simp add: bits.simps)
next
  case (Suc k)
  then have "2 ^ k \<le> n div 2" "n div 2 < 2 ^ Suc k" "n \<noteq> 0"
    by auto
  then have "bits (n div 2) = Suc k"
    using Suc.IH by blast
  then show ?case
    using \<open>n \<noteq> 0\<close> by (subst bits.simps) simp
qed

text \<open>Beyond, a product is rounded: the square of 94906267 is odd and has 54 digits.\<close>

lemma product_rounded: "to_double (94906267 * 94906267) = 9007199515875288"
proof -
  have "bits 9007199515875289 = Suc 53"
    by (rule bits_between) simp_all
  then show ?thesis
    by (simp add: to_double_def round_nat_def Let_def)
qed

section \<open>The overlap filter\<close>

lemma OR_matches_overlap_clauses:
  "OR_matches (overlap_clauses targetFrom targetTo) (Some f) (Some t) =
     ((f \<le> targetTo \<and> t \<ge> targetFrom) \<or> (f \<ge> targetFrom \<and> t \<le> targetTo))"
  by (simp add: OR_matches_def overlap_clauses_def clause_matches_def date_matches_def)

lemma OR_matches_no_value:
  "OR_matches (overlap_clauses targetFrom targetTo) None t = False"
  "OR_matches (overlap_clauses targetFrom targetTo) f None = False"
  by (simp_all add: OR_matches_def overlap_clauses_def clause_matches_def date_matches_def)

text \<open>
  Claim C2, as stated, fails: a booking that ends before it starts, from 5 to 3, is
  selected for the window from 1 to 4 by the second clause of \<^verbatim>\<open>where.OR\<close>
  (\<open>5 \<ge> 1\<close> and \<open>3 \<le> 4\<close>), while the general overlap test rejects it (\<open>5 \<le> 4\<close> is
  false). So the second clause is not subsumed by the first.
\<close>

theorem two_clauses_not_subsumed:
  "OR_matches (overlap_clauses 1 4) (Some 5) (Some 3) \<and> \<not> ((5::int) \<le> 4 \<and> (3::int) \<ge> 1)"
  by (simp add: OR_matches_overlap_clauses)

text \<open>
  Claim C2, amended: for every booking interval with \<open>from \<le> to\<close> and every target
  window, the two-clause predicate that \<^verbatim>\<open>getBookings\<close> puts into \<^verbatim>\<open>where.OR\<close> holds
  exactly when the general overlap test \<^verbatim>\<open>from <= targetTo AND to >= targetFrom\<close> holds.
\<close>

theorem two_clauses_general_overlap:
  "f \<le> t \<Longrightarrow>
   OR_matches (overlap_clauses targetFrom targetTo) (Some f) (Some t) =
     (f \<le> targetTo \<and> t \<ge> targetFrom)"
  by (auto simp: OR_matches_overlap_clauses)

theorem two_clauses_general_overlap_witness:
  "(1::int) \<le> 5 \<and>
   OR_matches (overlap_clauses 4 10) (Some 1) (Some 5) = ((1::int) \<le> 10 \<and> (5::int) \<ge> 4)"
  using two_clauses_general_overlap [of 1 5 4 10] by simp

section \<open>Listing with a date range\<close>

lemma where_window:
  "a_bookingFrom a = Some D1 \<Longrightarrow> a_bookingTo a = Some D2 \<Longrightarrow>
   where_matches (getBookings_where a) b =
     (where_matches (getBookings_where (window_free a)) b
      \<and> OR_matches (overlap_clauses D1 D2) (b_from b) (b_to b))"
  by (auto simp: where_matches_def getBookings_where_def window_free_def)

lemma where_no_window:
  "a_bookingFrom a = None \<or> a_bookingTo a = None \<Longrightarrow>
   getBookings_where a = getBookings_where (window_free a)"
  by (auto simp: getBookings_where_def window_free_def split: option.splits)

lemma OR_overlaps:
  "interval_ok b \<Longrightarrow> OR_matches (overlap_clauses D1 D2) (b_from b) (b_to b) = overlaps D1 D2 b"
  by (cases "b_from b"; cases "b_to b")
     (auto simp: OR_matches_overlap_clauses OR_matches_no_value interval_ok_def overlaps_def)

lemma overlaps_intersects:
  "interval_ok b \<Longrightarrow> D1 \<le> D2 \<Longrightarrow> overlaps D1 D2 b = intersects D1 D2 b"
  by (cases "b_from b"; cases "b_to b")
     (auto simp: interval_ok_def overlaps_def intersects_def)

lemma skip_take_window_free:
  "getBookings_skip (window_free a) = getBookings_skip a"
  "getBookings_take (window_free a) = getBookings_take a"
  by (simp_all add: getBookings_skip_def getBookings_take_def getBookings_page_def
        getBookings_perPage_def window_free_def)

lemma getBookings_Inr:
  "getBookings st a = Inr r \<Longrightarrow>
     0 \<le> getBookings_skip a
     \<and> r_bookings r = take (nat (getBookings_take a)) (drop (nat (getBookings_skip a))
          (newest_first (matching st (getBookings_where a))))
     \<and> r_bookingCount r = length (matching st (getBookings_where a))"
  by (auto simp: getBookings_def db_booking_findMany_def db_booking_count_def split: if_splits)

lemma set_newest_first: "set (newest_first bs) = set bs"
  by (simp add: newest_first_def)

lemma length_newest_first: "length (newest_first bs) = length bs"
  by (simp add: newest_first_def)

lemma matching_window:
  assumes "a_bookingFrom a = Some D1" "a_bookingTo a = Some D2"
    and "\<forall>b\<in>set (s_bookings st). interval_ok b"
  shows "matching st (getBookings_where a) = overlapping st a D1 D2"
  unfolding matching_def overlapping_def filter_filter
  by (rule filter_cong) (use assms in \<open>auto simp: where_window OR_overlaps\<close>)

lemma page_subset:
  "set (take n (drop k (newest_first bs))) \<subseteq> set bs"
  using set_take_subset set_drop_subset set_newest_first by fast

lemma page_whole:
  "length bs \<le> n \<Longrightarrow> set (take n (drop 0 (newest_first bs))) = set bs"
  by (simp add: set_newest_first length_newest_first)

lemmas getBookings_eval =
  getBookings_def db_booking_findMany_def db_booking_count_def matching_def newest_first_def
  getBookings_skip_def getBookings_take_def getBookings_page_def getBookings_perPage_def
  getBookings_where_def where_matches_def supplied_def nonempty_def trim_def
  OR_matches_overlap_clauses OR_matches_no_value list_all_of_def window_args_def

lemmas upsertBooking_eval =
  upsertBooking_def upsertBooking_call_def upsert_data_def upsert_create_data_def
  upsert_assets_def upsert_custodian_def supplied_def nonempty_def db_exec_def
  db_booking_update_def db_booking_create_def find_booking_def refs_exist_def apply_data_def
  connect_assets_def disconnect_assets_def fresh_id_def new_booking_def has_disconnect_def
  no_payload_def Let_def

text \<open>
  Claim C1, as stated, fails. \<^verbatim>\<open>upsertBooking\<close> stores a booking from day 5 to day 3
  as it is given. Listing with the window from day 1 to day 4 returns it, by the second
  clause of \<^verbatim>\<open>where.OR\<close>, although its interval does not intersect the window: it starts
  after the window has ended, and it passes the general overlap test no more than the
  test by intersection.
\<close>

theorem getBookings_window_backwards:
  "upsertBooking fresh_store backwards_payload = (Inr booking_backwards, store_backwards)
   \<and> getBookings store_backwards (window_args ''o1'' 1 4) =
       Inr \<lparr>r_bookings = [booking_backwards], r_bookingCount = 1\<rparr>
   \<and> \<not> intersects 1 4 booking_backwards
   \<and> \<not> overlaps 1 4 booking_backwards"
  by (simp add: getBookings_eval upsertBooking_eval backwards_payload_def fresh_store_def
      store_backwards_def booking_backwards_def intersects_def overlaps_def)

text \<open>
  Claim C1, amended: in a store whose bookings all have \<open>from \<le> to\<close>, a call of
  \<^verbatim>\<open>getBookings\<close> with \<open>bookingFrom = D1\<close> and \<open>bookingTo = D2\<close> selects exactly the
  bookings that pass the other active filters and satisfy \<open>from \<le> D2\<close> and \<open>to \<ge> D1\<close>
  (for \<open>D1 \<le> D2\<close>: whose interval intersects the window), so that a booking entirely
  before \<open>D1\<close> or entirely after \<open>D2\<close> is excluded: the count is their number, the page
  holds none but them, and all of them when nothing is skipped and they fit the page.
  When either bound is absent the filter has no date clause, and the result is that of
  the call without a date range.
\<close>

theorem getBookings_window:
  assumes res: "getBookings st a = Inr r"
    and ok: "\<forall>b\<in>set (s_bookings st). interval_ok b"
  shows
    "(\<forall>D1 D2. a_bookingFrom a = Some D1 \<and> a_bookingTo a = Some D2 \<longrightarrow>
        r_bookingCount r = length (overlapping st a D1 D2)
        \<and> set (r_bookings r) \<subseteq> set (overlapping st a D1 D2)
        \<and> (getBookings_skip a = 0 \<and> int (r_bookingCount r) \<le> getBookings_take a \<longrightarrow>
             set (r_bookings r) = set (overlapping st a D1 D2))
        \<and> (D1 \<le> D2 \<longrightarrow>
             set (overlapping st a D1 D2) =
               {b \<in> set (matching st (getBookings_where (window_free a))). intersects D1 D2 b}))
     \<and> (a_bookingFrom a = None \<or> a_bookingTo a = None \<longrightarrow>
          w_OR (getBookings_where a) = None
          \<and> getBookings st a = getBookings st (window_free a))"
proof (intro conjI allI impI)
  note r = getBookings_Inr [OF res]
  {
    fix D1 D2
    assume w: "a_bookingFrom a = Some D1 \<and> a_bookingTo a = Some D2"
    then have m: "matching st (getBookings_where a) = overlapping st a D1 D2"
      using matching_window ok by blast
    show "r_bookingCount r = length (overlapping st a D1 D2)"
      using r m by simp
    show "set (r_bookings r) \<subseteq> set (overlapping st a D1 D2)"
      using r m page_subset by metis
    {
      assume "getBookings_skip a = 0 \<and> int (r_bookingCount r) \<le> getBookings_take a"
      then have "getBookings_skip a = 0"
        and "length (overlapping st a D1 D2) \<le> nat (getBookings_take a)"
        using r m by auto
      then show "set (r_bookings r) = set (overlapping st a D1 D2)"
        using r m page_whole [of "overlapping st a D1 D2" "nat (getBookings_take a)"] by simp
    }
    {
      assume le: "D1 \<le> D2"
      have "\<And>b. b \<in> set (matching st (getBookings_where (window_free a))) \<Longrightarrow>
                 overlaps D1 D2 b = intersects D1 D2 b"
        using ok le overlaps_intersects by (simp add: matching_def)
      then show "set (overlapping st a D1 D2) =
               {b \<in> set (matching st (getBookings_where (window_free a))). intersects D1 D2 b}"
        by (auto simp: overlapping_def)
    }
  }
  {
    assume n: "a_bookingFrom a = None \<or> a_bookingTo a = None"
    then show "w_OR (getBookings_where a) = None"
      by (auto simp: getBookings_where_def split: option.splits)
    have e: "getBookings_where (window_free a) = getBookings_where a"
      using where_no_window [OF n] by simp
    show "getBookings st a = getBookings st (window_free a)"
      unfolding getBookings_def skip_take_window_free e by (rule refl)
  }
qed

theorem getBookings_window_witness:
  "getBookings store_AB (window_args ''o1'' 4 9) =
     Inr \<lparr>r_bookings = [booking_A], r_bookingCount = 1\<rparr>
   \<and> list_all interval_ok (s_bookings store_AB)
   \<and> overlapping store_AB (window_args ''o1'' 4 9) 4 9 = [booking_A]
   \<and> intersects 4 9 booking_A \<and> \<not> intersects 4 9 booking_B"
proof -
  have res: "getBookings store_AB (window_args ''o1'' 4 9) =
      Inr \<lparr>r_bookings = [booking_A], r_bookingCount = 1\<rparr>"
    by (simp add: getBookings_eval store_AB_def fresh_store_def booking_A_def booking_B_def)
  have ok: "\<forall>b\<in>set (s_bookings store_AB). interval_ok b"
    by (simp add: store_AB_def interval_ok_def booking_A_def booking_B_def)
  have "overlapping store_AB (window_args ''o1'' 4 9) 4 9 = [booking_A]"
    by (simp add: overlapping_def overlaps_def window_free_def getBookings_eval store_AB_def
        fresh_store_def booking_A_def booking_B_def)
  with getBookings_window [OF res ok] res ok show ?thesis
    by (simp add: intersects_def booking_A_def booking_B_def list_all_iff)
qed

section \<open>Creating and updating a booking\<close>

lemma supplied_Some: "supplied s = Some v \<Longrightarrow> s = Some v \<and> v \<noteq> []"
  by (auto simp: supplied_def split: option.splits if_splits)

lemma nonempty_Some: "nonempty s = Some v \<Longrightarrow> s = Some v \<and> v \<noteq> []"
  by (auto simp: nonempty_def split: option.splits if_splits)

lemma upsertBooking_update:
  "supplied (p_id p) = Some i \<Longrightarrow> upsertBooking st p = db_booking_update st i (upsert_data p)"
  by (simp add: upsertBooking_def upsertBooking_call_def db_exec_def)

lemma upsertBooking_create:
  "supplied (p_id p) = None \<Longrightarrow>
   upsertBooking st p = db_booking_create st (upsert_create_data p)"
  by (simp add: upsertBooking_def upsertBooking_call_def db_exec_def)


lemma db_booking_create_Inr:
  assumes "db_booking_create st d = (Inr b', st')"
  obtains c g where "d_creator d = Some c" "d_organization d = Some g" "refs_exist st d"
    "\<not> has_disconnect d"
    "b' = apply_data d (new_booking st c g)"
    "st' = st\<lparr>s_bookings := s_bookings st @ [b'], s_clock := s_clock st + 1\<rparr>"
  using assms
  by (auto simp: db_booking_create_def Let_def split: option.splits if_splits)

lemma custodian_user_data:
  "d_custodianUser (upsert_data p) =
     (case supplied (p_custodianUserId p) of
        Some u \<Rightarrow> Some (Connect u)
      | None \<Rightarrow> (case supplied (p_custodianTeamMemberId p) of
                   Some t \<Rightarrow> Some Disconnect | None \<Rightarrow> None))"
  by (simp add: upsert_data_def upsert_custodian_def upsert_assets_def split: option.splits)

lemma custodian_team_data:
  "d_custodianTeamMember (upsert_data p) =
     (case supplied (p_custodianUserId p) of
        Some u \<Rightarrow> Some Disconnect
      | None \<Rightarrow> (case supplied (p_custodianTeamMemberId p) of
                   Some t \<Rightarrow> Some (Connect t) | None \<Rightarrow> None))"
  by (simp add: upsert_data_def upsert_custodian_def upsert_assets_def split: option.splits)

lemma assets_data:
  "d_assets (upsert_data p) =
     (case nonempty (p_assetIds p) of Some ids \<Rightarrow> Some (ConnectMany ids) | None \<Rightarrow> None)"
  by (simp add: upsert_data_def upsert_custodian_def upsert_assets_def split: option.splits)

lemma creator_organization_data:
  "d_creator (upsert_data p) = None" "d_organization (upsert_data p) = None"
  by (simp_all add: upsert_data_def upsert_custodian_def upsert_assets_def split: option.splits)

lemma create_data_fields:
  "d_custodianUser (upsert_create_data p) = d_custodianUser (upsert_data p)"
  "d_custodianTeamMember (upsert_create_data p) = d_custodianTeamMember (upsert_data p)"
  "d_assets (upsert_create_data p) = d_assets (upsert_data p)"
  "d_creator (upsert_create_data p) = supplied (p_creatorId p)"
  "d_organization (upsert_create_data p) = supplied (p_organizationId p)"
  by (simp_all add: upsert_create_data_def)

lemma apply_data_custodians:
  "b_custodianUserId (apply_data d b) =
     (case d_custodianUser d of
        None \<Rightarrow> b_custodianUserId b | Some (Connect u) \<Rightarrow> Some u | Some Disconnect \<Rightarrow> None)"
  "b_custodianTeamMemberId (apply_data d b) =
     (case d_custodianTeamMember d of
        None \<Rightarrow> b_custodianTeamMemberId b | Some (Connect t) \<Rightarrow> Some t
      | Some Disconnect \<Rightarrow> None)"
  by (simp_all add: apply_data_def)


lemma apply_data_owner:
  "b_creatorId (apply_data d b) = (case d_creator d of None \<Rightarrow> b_creatorId b | Some c \<Rightarrow> c)"
  "b_organizationId (apply_data d b) =
     (case d_organization d of None \<Rightarrow> b_organizationId b | Some g \<Rightarrow> g)"
  by (simp_all add: apply_data_def)


lemma set_disconnect_assets: "set (disconnect_assets ids old) = set old - set ids"
  by (auto simp: disconnect_assets_def)





subsection \<open>Custodians\<close>








lemma refs_exist_upsert_data: "refs_exist st (upsert_data p) = known_refs st p"
  by (auto simp: refs_exist_def known_refs_def assets_data custodian_user_data
      custodian_team_data creator_organization_data split: option.splits)

lemma refs_exist_create_data:
  "refs_exist st (upsert_create_data p) =
     (known_refs st p
      \<and> (case supplied (p_creatorId p) of Some c \<Rightarrow> c \<in> set (s_users st) | None \<Rightarrow> True)
      \<and> (case supplied (p_organizationId p) of
            Some g \<Rightarrow> g \<in> set (s_organizations st) | None \<Rightarrow> True))"
  by (auto simp: refs_exist_def known_refs_def assets_data custodian_user_data
      custodian_team_data create_data_fields split: option.splits)

lemma has_disconnect_upsert_data:
  "has_disconnect (upsert_data p) =
     (supplied (p_custodianUserId p) \<noteq> None \<or> supplied (p_custodianTeamMemberId p) \<noteq> None)"
  by (auto simp: has_disconnect_def assets_data custodian_user_data custodian_team_data
      split: option.splits)

lemma has_disconnect_create_data:
  "has_disconnect (upsert_create_data p) = has_disconnect (upsert_data p)"
  by (simp add: has_disconnect_def create_data_fields)

lemma b_id_apply_data: "b_id (apply_data d b) = b_id b"
  by (simp add: apply_data_def)

lemma find_map_apply:
  "find (\<lambda>b. b_id b = i) (map (\<lambda>x. if b_id x = i then apply_data d x else x) bs) =
     map_option (apply_data d) (find (\<lambda>b. b_id b = i) bs)"
  by (induction bs) (simp_all add: b_id_apply_data)

lemma db_booking_update_found:
  assumes "find_booking st i = Some b" "refs_exist st d"
  shows "db_booking_update st i d =
     (Inr (apply_data d b),
      st\<lparr>s_bookings := map (\<lambda>x. if b_id x = i then apply_data d x else x) (s_bookings st)\<rparr>)"
  using assms by (simp add: db_booking_update_def)

lemma db_booking_create_ok:
  assumes "d_creator d = Some c" "d_organization d = Some g" "\<not> has_disconnect d"
    "refs_exist st d"
  shows "db_booking_create st d =
     (Inr (apply_data d (new_booking st c g)),
      st\<lparr>s_bookings := s_bookings st @ [apply_data d (new_booking st c g)],
         s_clock := s_clock st + 1\<rparr>)"
  using assms by (simp add: db_booking_create_def Let_def)





lemma create_no_custodian:
  assumes "supplied (p_id p) = None" "supplied (p_custodianUserId p) = None"
    "supplied (p_custodianTeamMemberId p) = None"
    "supplied (p_creatorId p) = Some c" "c \<in> set (s_users st)"
    "supplied (p_organizationId p) = Some g" "g \<in> set (s_organizations st)"
    "known_refs st p"
  shows "\<exists>b' st'. upsertBooking st p = (Inr b', st')
      \<and> s_bookings st' = s_bookings st @ [b']
      \<and> b_custodianUserId b' = None \<and> b_custodianTeamMemberId b' = None
      \<and> b_creatorId b' = c \<and> b_organizationId b' = g"
proof -
  let ?d = "upsert_create_data p"
  have "db_booking_create st ?d =
     (Inr (apply_data ?d (new_booking st c g)),
      st\<lparr>s_bookings := s_bookings st @ [apply_data ?d (new_booking st c g)],
         s_clock := s_clock st + 1\<rparr>)"
    using assms
    by (intro db_booking_create_ok)
      (simp_all add: create_data_fields has_disconnect_create_data has_disconnect_upsert_data
        refs_exist_create_data)
  then show ?thesis
    using assms
    by (simp add: upsertBooking_create apply_data_custodians apply_data_owner create_data_fields
        custodian_user_data custodian_team_data new_booking_def)
qed




subsection \<open>Assets\<close>




subsection \<open>Creator and organization\<close>

lemma call_kind:
  "supplied (p_id p) = None \<Longrightarrow>
     upsertBooking_call p = BookingCreate (call_data (upsertBooking_call p))"
  "supplied (p_id p) = Some i \<Longrightarrow>
     upsertBooking_call p = BookingUpdate i (call_data (upsertBooking_call p))"
  by (simp_all add: upsertBooking_call_def)

lemma call_data_owner:
  "supplied (p_id p) = None \<Longrightarrow>
     d_creator (call_data (upsertBooking_call p)) = supplied (p_creatorId p)
     \<and> d_organization (call_data (upsertBooking_call p)) = supplied (p_organizationId p)"
  "supplied (p_id p) = Some i \<Longrightarrow>
     d_creator (call_data (upsertBooking_call p)) = None
     \<and> d_organization (call_data (upsertBooking_call p)) = None"
  by (simp_all add: upsertBooking_call_def create_data_fields creator_organization_data)

lemma owner_kept:
  "b_creatorId (apply_data (upsert_data p) b) = b_creatorId b"
  "b_organizationId (apply_data (upsert_data p) b) = b_organizationId b"
  by (simp_all add: apply_data_owner creator_organization_data)

lemma update_keeps_owners:
  "map b_creatorId (s_bookings (snd (db_booking_update st i (upsert_data p)))) =
     map b_creatorId (s_bookings st)"
  "map b_organizationId (s_bookings (snd (db_booking_update st i (upsert_data p)))) =
     map b_organizationId (s_bookings st)"
  by (simp_all add: db_booking_update_def owner_kept o_def if_distrib
      split: option.splits cong: if_cong)

lemma update_owner:
  assumes "supplied (p_id p) = Some i" "find_booking st i = Some b" "known_refs st p"
  shows "\<exists>b' st'. upsertBooking st p = (Inr b', st')
      \<and> find_booking st' i = Some b'
      \<and> b_creatorId b' = b_creatorId b \<and> b_organizationId b' = b_organizationId b"
proof -
  let ?d = "upsert_data p"
  let ?st' = "st\<lparr>s_bookings :=
      map (\<lambda>x. if b_id x = i then apply_data ?d x else x) (s_bookings st)\<rparr>"
  have "upsertBooking st p = (Inr (apply_data ?d b), ?st')"
    using assms by (simp add: upsertBooking_update db_booking_update_found refs_exist_upsert_data)
  moreover have "find_booking ?st' i = Some (apply_data ?d b)"
    using assms(2) by (simp add: find_booking_def find_map_apply)
  ultimately show ?thesis
    by (simp add: owner_kept)
qed

lemma created_owner:
  assumes "supplied (p_id p) = None" "upsertBooking st p = (Inr b', st')"
  shows "p_creatorId p = Some (b_creatorId b') \<and> p_organizationId p = Some (b_organizationId b')"
proof -
  from assms have "db_booking_create st (upsert_create_data p) = (Inr b', st')"
    by (simp add: upsertBooking_create)
  then obtain c g where "d_creator (upsert_create_data p) = Some c"
    "d_organization (upsert_create_data p) = Some g"
    "b' = apply_data (upsert_create_data p) (new_booking st c g)"
    by (rule db_booking_create_Inr)
  then show ?thesis
    by (auto simp: apply_data_owner create_data_fields dest: supplied_Some)
qed

text \<open>
  Claim C5. Called without an id, \<^verbatim>\<open>upsertBooking\<close> issues a create whose data link
  the creator and the organization exactly as the payload supplies them; the creation
  succeeds when both are in the store, as are the assets named, and no custodian is
  named, and the booking created then has that creator and that organization, as has
  every booking that a call without an id returns. Called with an id, it issues an
  update whose data link neither; the update of a booking that is in the store succeeds
  and returns the booking with the creator and the organization it had, whatever the
  payload supplies for them, and whatever the outcome no booking in the store changes
  its creator or its organization.
\<close>

theorem upsertBooking_creator_organization:
  "(supplied (p_id p) = None \<longrightarrow>
      upsertBooking_call p = BookingCreate (call_data (upsertBooking_call p))
      \<and> d_creator (call_data (upsertBooking_call p)) = supplied (p_creatorId p)
      \<and> d_organization (call_data (upsertBooking_call p)) = supplied (p_organizationId p))
   \<and> (\<forall>c g. supplied (p_id p) = None
          \<and> supplied (p_creatorId p) = Some c \<and> c \<in> set (s_users st)
          \<and> supplied (p_organizationId p) = Some g \<and> g \<in> set (s_organizations st)
          \<and> supplied (p_custodianUserId p) = None
          \<and> supplied (p_custodianTeamMemberId p) = None
          \<and> known_refs st p \<longrightarrow>
        (\<exists>b' st'. upsertBooking st p = (Inr b', st')
           \<and> s_bookings st' = s_bookings st @ [b']
           \<and> b_creatorId b' = c \<and> b_organizationId b' = g))
   \<and> (\<forall>b' st'. supplied (p_id p) = None \<and> upsertBooking st p = (Inr b', st') \<longrightarrow>
        p_creatorId p = Some (b_creatorId b')
        \<and> p_organizationId p = Some (b_organizationId b'))
   \<and> (\<forall>i. supplied (p_id p) = Some i \<longrightarrow>
        upsertBooking_call p = BookingUpdate i (call_data (upsertBooking_call p))
        \<and> d_creator (call_data (upsertBooking_call p)) = None
        \<and> d_organization (call_data (upsertBooking_call p)) = None)
   \<and> (\<forall>i b. supplied (p_id p) = Some i \<and> find_booking st i = Some b \<and> known_refs st p \<longrightarrow>
        (\<exists>b' st'. upsertBooking st p = (Inr b', st')
           \<and> find_booking st' i = Some b'
           \<and> b_creatorId b' = b_creatorId b \<and> b_organizationId b' = b_organizationId b))
   \<and> (supplied (p_id p) \<noteq> None \<longrightarrow>
        map b_creatorId (s_bookings (snd (upsertBooking st p))) = map b_creatorId (s_bookings st)
        \<and> map b_organizationId (s_bookings (snd (upsertBooking st p))) =
            map b_organizationId (s_bookings st))"
proof -
  have c1: "supplied (p_id p) = None \<longrightarrow>
      upsertBooking_call p = BookingCreate (call_data (upsertBooking_call p))
      \<and> d_creator (call_data (upsertBooking_call p)) = supplied (p_creatorId p)
      \<and> d_organization (call_data (upsertBooking_call p)) = supplied (p_organizationId p)"
    using call_kind(1) call_data_owner(1) by blast
  have c2: "\<forall>c g. supplied (p_id p) = None
          \<and> supplied (p_creatorId p) = Some c \<and> c \<in> set (s_users st)
          \<and> supplied (p_organizationId p) = Some g \<and> g \<in> set (s_organizations st)
          \<and> supplied (p_custodianUserId p) = None
          \<and> supplied (p_custodianTeamMemberId p) = None
          \<and> known_refs st p \<longrightarrow>
        (\<exists>b' st'. upsertBooking st p = (Inr b', st')
           \<and> s_bookings st' = s_bookings st @ [b']
           \<and> b_creatorId b' = c \<and> b_organizationId b' = g)"
    using create_no_custodian [of p _ st] by blast
  have c3: "\<forall>b' st'. supplied (p_id p) = None \<and> upsertBooking st p = (Inr b', st') \<longrightarrow>
        p_creatorId p = Some (b_creatorId b')
        \<and> p_organizationId p = Some (b_organizationId b')"
    using created_owner by blast
  have u1: "\<forall>i. supplied (p_id p) = Some i \<longrightarrow>
        upsertBooking_call p = BookingUpdate i (call_data (upsertBooking_call p))
        \<and> d_creator (call_data (upsertBooking_call p)) = None
        \<and> d_organization (call_data (upsertBooking_call p)) = None"
    using call_kind(2) call_data_owner(2) by blast
  have u2: "\<forall>i b. supplied (p_id p) = Some i \<and> find_booking st i = Some b
        \<and> known_refs st p \<longrightarrow>
        (\<exists>b' st'. upsertBooking st p = (Inr b', st')
           \<and> find_booking st' i = Some b'
           \<and> b_creatorId b' = b_creatorId b \<and> b_organizationId b' = b_organizationId b)"
    using update_owner by blast
  have u3: "supplied (p_id p) \<noteq> None \<longrightarrow>
        map b_creatorId (s_bookings (snd (upsertBooking st p))) = map b_creatorId (s_bookings st)
        \<and> map b_organizationId (s_bookings (snd (upsertBooking st p))) =
            map b_organizationId (s_bookings st)"
    by (auto simp: upsertBooking_update update_keeps_owners)
  show ?thesis
    by (intro conjI c1 c2 c3 u1 u2 u3)
qed

theorem upsertBooking_creator_organization_witness:
  "supplied (p_id takeover_payload) = Some ''A''
   \<and> find_booking store_AB ''A'' = Some booking_A
   \<and> known_refs store_AB takeover_payload
   \<and> p_creatorId takeover_payload = Some ''u2''
   \<and> p_organizationId takeover_payload = Some ''o2''
   \<and> upsertBooking store_AB takeover_payload =
       (Inr (booking_A\<lparr>b_name := Some ''Renamed''\<rparr>),
        store_AB\<lparr>s_bookings := [booking_A\<lparr>b_name := Some ''Renamed''\<rparr>, booking_B]\<rparr>)
   \<and> b_creatorId (booking_A\<lparr>b_name := Some ''Renamed''\<rparr>) = ''u1''
   \<and> b_organizationId (booking_A\<lparr>b_name := Some ''Renamed''\<rparr>) = ''o1''
   \<and> supplied (p_id draft_payload) = None
   \<and> supplied (p_creatorId draft_payload) = Some ''u2''
   \<and> supplied (p_organizationId draft_payload) = Some ''o2''
   \<and> known_refs store_AB draft_payload
   \<and> map_sum id (\<lambda>b. (b_creatorId b, b_organizationId b))
        (fst (upsertBooking store_AB draft_payload)) = Inr (''u2'', ''o2'')"
proof -
  have i: "supplied (p_id takeover_payload) = Some ''A''"
    and pc: "p_creatorId takeover_payload = Some ''u2''"
    and pg: "p_organizationId takeover_payload = Some ''o2''"
    by (simp_all add: supplied_def takeover_payload_def no_payload_def)
  have b: "find_booking store_AB ''A'' = Some booking_A"
    by (simp add: find_booking_def store_AB_def booking_A_def)
  have k: "known_refs store_AB takeover_payload"
    by (simp add: known_refs_def supplied_def nonempty_def takeover_payload_def no_payload_def)
  have res: "upsertBooking store_AB takeover_payload =
     (Inr (booking_A\<lparr>b_name := Some ''Renamed''\<rparr>),
      store_AB\<lparr>s_bookings := [booking_A\<lparr>b_name := Some ''Renamed''\<rparr>, booking_B]\<rparr>)"
    by (simp add: upsertBooking_eval takeover_payload_def store_AB_def fresh_store_def
        booking_A_def booking_B_def)
  note t = upsertBooking_creator_organization [of takeover_payload store_AB]
  from t i b k have "\<exists>b' st'. upsertBooking store_AB takeover_payload = (Inr b', st')
      \<and> b_creatorId b' = b_creatorId booking_A \<and> b_organizationId b' = b_organizationId booking_A"
    by blast
  then have c: "b_creatorId (booking_A\<lparr>b_name := Some ''Renamed''\<rparr>) = ''u1''"
    and g: "b_organizationId (booking_A\<lparr>b_name := Some ''Renamed''\<rparr>) = ''o1''"
    by (simp_all add: res booking_A_def)
  have n: "supplied (p_id draft_payload) = None"
    and dc: "supplied (p_creatorId draft_payload) = Some ''u2''"
    and dg: "supplied (p_organizationId draft_payload) = Some ''o2''"
    and du: "supplied (p_custodianUserId draft_payload) = None"
    and dt: "supplied (p_custodianTeamMemberId draft_payload) = None"
    by (simp_all add: supplied_def draft_payload_def no_payload_def)
  have dk: "known_refs store_AB draft_payload"
    by (simp add: known_refs_def supplied_def nonempty_def draft_payload_def no_payload_def)
  have mem: "''u2'' \<in> set (s_users store_AB)" "''o2'' \<in> set (s_organizations store_AB)"
    by (simp_all add: store_AB_def fresh_store_def)
  note t' = upsertBooking_creator_organization [of draft_payload store_AB]
  from t' n dc dg du dt dk mem
  have "\<exists>b' st'. upsertBooking store_AB draft_payload = (Inr b', st')
      \<and> b_creatorId b' = ''u2'' \<and> b_organizationId b' = ''o2''"
    by blast
  then have new: "map_sum id (\<lambda>b. (b_creatorId b, b_organizationId b))
        (fst (upsertBooking store_AB draft_payload)) = Inr (''u2'', ''o2'')"
    by auto
  show ?thesis
    by (intro conjI i b k pc pg res c g n dc dg dk new)
qed

subsection \<open>Required fields\<close>

text \<open>
  Claim C9, as stated, fails: \<^verbatim>\<open>upsertBooking\<close> checks nothing before it calls the
  store. For a payload with neither an id nor a \<^verbatim>\<open>creatorId\<close> it issues
  \<^verbatim>\<open>db.booking.create\<close>, with data that link no creator.
\<close>

theorem upsertBooking_issues_create:
  "upsertBooking_call orphan_payload =
     BookingCreate
       \<lparr>d_name = Some ''Draft booking'', d_from = None, d_to = None, d_status = None,
        d_assets = None, d_custodianUser = None, d_custodianTeamMember = None,
        d_creator = None, d_organization = Some ''o1''\<rparr>
   \<and> p_id orphan_payload = None \<and> p_creatorId orphan_payload = None
   \<and> upsertBooking fresh_store orphan_payload =
       db_booking_create fresh_store (upsert_create_data orphan_payload)"
  by (simp add: upsertBooking_def upsertBooking_call_def upsert_data_def upsert_create_data_def
      upsert_assets_def upsert_custodian_def supplied_def nonempty_def db_exec_def
      orphan_payload_def no_payload_def)

text \<open>
  Claim C9, amended: called without an id and without a creator or an organization id,
  \<^verbatim>\<open>upsertBooking\<close> issues the create operation with data in which that link is
  missing, and its outcome is the outcome of that operation: the store rejects it with
  \<^verbatim>\<open>ValidationError\<close> and is left unchanged.
\<close>

theorem upsertBooking_missing_required:
  assumes "supplied (p_id p) = None"
    and "supplied (p_creatorId p) = None \<or> supplied (p_organizationId p) = None"
  shows
    "upsertBooking_call p = BookingCreate (upsert_create_data p)
     \<and> d_creator (upsert_create_data p) = supplied (p_creatorId p)
     \<and> d_organization (upsert_create_data p) = supplied (p_organizationId p)
     \<and> upsertBooking st p = db_booking_create st (upsert_create_data p)
     \<and> upsertBooking st p = (Inl ValidationError, st)"
  using assms
  by (auto simp: upsertBooking_create upsertBooking_call_def create_data_fields
      db_booking_create_def split: option.splits)

theorem upsertBooking_missing_required_witness:
  "supplied (p_id orphan_payload) = None
   \<and> supplied (p_creatorId orphan_payload) = None
   \<and> upsertBooking_call orphan_payload = BookingCreate (upsert_create_data orphan_payload)
   \<and> upsertBooking fresh_store orphan_payload = (Inl ValidationError, fresh_store)"
proof -
  have i: "supplied (p_id orphan_payload) = None"
    and c: "supplied (p_creatorId orphan_payload) = None"
    by (simp_all add: supplied_def orphan_payload_def no_payload_def)
  from upsertBooking_missing_required [OF i disjI1, OF c, of fresh_store] i c show ?thesis
    by blast
qed

section \<open>Removing assets from a booking\<close>




lemma b_id_without: "b_id (without ids b) = b_id b"
  by (simp add: without_def)



lemma ids_kept:
  "map b_id (map (\<lambda>x. if b_id x = i then without ids x else x) bs) = map b_id bs"
  by (simp add: b_id_without)




section \<open>Listing: the tenant and the pages\<close>

lemma where_matches_organization:
  "where_matches (getBookings_where a) b \<Longrightarrow> b_organizationId b = a_organizationId a"
  by (simp add: where_matches_def getBookings_where_def)

lemma take_cases:
  "getBookings_take a =
     (if 1 \<le> getBookings_perPage a \<and> getBookings_perPage a \<le> 100
      then getBookings_perPage a else 20)"
  by (simp add: getBookings_take_def)

lemma take_bounds: "1 \<le> getBookings_take a \<and> getBookings_take a \<le> 100"
  by (simp add: getBookings_take_def)

lemma page_length:
  assumes "getBookings st a = Inr r"
  shows "length (r_bookings r) =
     min (nat (getBookings_take a)) (r_bookingCount r - nat (getBookings_skip a))"
  using getBookings_Inr [OF assms] by (simp add: length_newest_first)

lemma matching_store_many:
  "matching (store_many n) (getBookings_where (paged page perPage)) = map numbered [0..<n]"
  by (simp add: matching_def store_many_def filter_id_conv where_matches_def
      getBookings_where_def paged_def list_all_of_def supplied_def nonempty_def numbered_def
      booking_A_def)

lemma getBookings_store_many:
  "0 \<le> getBookings_skip (paged page perPage) \<Longrightarrow>
   getBookings (store_many n) (paged page perPage) =
     Inr \<lparr>r_bookings = take (nat (getBookings_take (paged page perPage)))
             (drop (nat (getBookings_skip (paged page perPage)))
                (newest_first (map numbered [0..<n]))),
          r_bookingCount = n\<rparr>"
  by (simp add: getBookings_def db_booking_findMany_def db_booking_count_def matching_store_many)

lemma paged_skip_take:
  "getBookings_skip (paged page perPage) =
     (if page > 1 then to_double (to_double (page - 1) * perPage) else 0)"
  "getBookings_take (paged page perPage) = (if 1 \<le> perPage \<and> perPage \<le> 100 then perPage else 20)"
  by (simp_all add: getBookings_skip_def getBookings_take_def getBookings_page_def
      getBookings_perPage_def paged_def)

lemma skip_of_page:
  "getBookings_skip (a\<lparr>a_page := Some q\<rparr>) =
     (if q > 1 then to_double (to_double (q - 1) * getBookings_perPage a) else 0)"
  by (simp add: getBookings_skip_def getBookings_page_def getBookings_perPage_def)

lemma position_on_no_page:
  assumes big: "100 < (n::int)" and k: "20 \<le> k" "k < n" and i: "0 \<le> i" "i < 20"
  shows "(if q > 1 then (q - 1) * n else 0) + i \<noteq> k"
proof (cases "q > 1")
  case True
  define m where "m = (q - 1) * n"
  have "1 * n \<le> (q - 1) * n"
    using True big by (intro mult_right_mono) auto
  then have "n \<le> m"
    by (simp add: m_def)
  then have "m + i \<noteq> k"
    using k i by linarith
  then show ?thesis
    using True by (simp add: m_def)
next
  case False
  then show ?thesis
    using k i by simp
qed

text \<open>
  Claim C6: whatever the optional filters, every booking on the page that
  \<^verbatim>\<open>getBookings\<close> returns belongs to the organization it was called for.
\<close>

theorem getBookings_tenant:
  assumes "getBookings st a = Inr r"
  shows "\<forall>b\<in>set (r_bookings r). b_organizationId b = a_organizationId a"
proof
  fix b
  assume "b \<in> set (r_bookings r)"
  then have "b \<in> set (matching st (getBookings_where a))"
    using getBookings_Inr [OF assms] page_subset by fastforce
  then show "b_organizationId b = a_organizationId a"
    by (simp add: matching_def where_matches_organization)
qed

theorem getBookings_tenant_witness:
  "getBookings store_AC (list_all_of ''o1'') = Inr \<lparr>r_bookings = [booking_A], r_bookingCount = 1\<rparr>
   \<and> s_bookings store_AC = [booking_A, booking_C]
   \<and> b_organizationId booking_A = ''o1''
   \<and> b_organizationId booking_C = ''o2''"
proof -
  have res: "getBookings store_AC (list_all_of ''o1'') =
      Inr \<lparr>r_bookings = [booking_A], r_bookingCount = 1\<rparr>"
    by (simp add: getBookings_eval store_AC_def fresh_store_def booking_A_def booking_B_def
        booking_C_def)
  from getBookings_tenant [OF res] have "b_organizationId booking_A = ''o1''"
    by (simp add: list_all_of_def)
  with res show ?thesis
    by (simp add: store_AC_def booking_C_def booking_B_def)
qed

text \<open>
  Claim C7: the page size of \<^verbatim>\<open>getBookings\<close> is \<^verbatim>\<open>perPage\<close> when that lies between 1
  and 100, and 20 otherwise (8 when \<^verbatim>\<open>perPage\<close> is left out, by its default). The page
  returned holds that many bookings, or those that are left after the skipped ones if
  they are fewer: at most 20 for \<^verbatim>\<open>perPage\<close> 0 or 250, at most 50 for 50.
\<close>

theorem getBookings_page_size:
  assumes "getBookings st a = Inr r"
  shows
    "length (r_bookings r) =
       min (nat (getBookings_take a)) (r_bookingCount r - nat (getBookings_skip a))
     \<and> (\<forall>n. a_perPage a = Some n \<longrightarrow>
           getBookings_take a = (if 1 \<le> n \<and> n \<le> 100 then n else 20))
     \<and> (a_perPage a = None \<longrightarrow> getBookings_take a = 8)
     \<and> (a_perPage a = Some 0 \<or> a_perPage a = Some 250 \<longrightarrow> length (r_bookings r) \<le> 20)
     \<and> (a_perPage a = Some 50 \<longrightarrow> length (r_bookings r) \<le> 50)"
  using page_length [OF assms]
  by (auto simp: getBookings_take_def getBookings_perPage_def)

theorem getBookings_page_size_witness:
  "map_sum id (\<lambda>r. (length (r_bookings r), r_bookingCount r))
      (getBookings (store_many 25) (paged 1 250)) = Inr (20, 25)
   \<and> map_sum id (\<lambda>r. (length (r_bookings r), r_bookingCount r))
      (getBookings (store_many 25) (paged 1 0)) = Inr (20, 25)
   \<and> map_sum id (\<lambda>r. (length (r_bookings r), r_bookingCount r))
      (getBookings (store_many 75) (paged 1 50)) = Inr (50, 75)"
proof -
  obtain r1 where r1: "getBookings (store_many 25) (paged 1 250) = Inr r1"
    and c1: "r_bookingCount r1 = 25"
    by (simp add: getBookings_store_many paged_skip_take)
  obtain r2 where r2: "getBookings (store_many 25) (paged 1 0) = Inr r2"
    and c2: "r_bookingCount r2 = 25"
    by (simp add: getBookings_store_many paged_skip_take)
  obtain r3 where r3: "getBookings (store_many 75) (paged 1 50) = Inr r3"
    and c3: "r_bookingCount r3 = 75"
    by (simp add: getBookings_store_many paged_skip_take)
  from getBookings_page_size [OF r1] getBookings_page_size [OF r2] getBookings_page_size [OF r3]
  show ?thesis
    by (simp add: r1 r2 r3 c1 c2 c3 paged_skip_take)
qed

lemma skip_exact:
  assumes "getBookings_page a > 1" "\<bar>getBookings_page a\<bar> < 2 ^ 53"
    "\<bar>(getBookings_page a - 1) * getBookings_perPage a\<bar> < 2 ^ 53"
  shows "getBookings_skip a = (getBookings_page a - 1) * getBookings_perPage a"
proof -
  have "\<bar>getBookings_page a - 1\<bar> < 2 ^ 53"
    using assms(1,2) by simp
  then have "to_double (getBookings_page a - 1) = getBookings_page a - 1"
    by (rule to_double_exact)
  then show ?thesis
    using assms(1,3) by (simp add: getBookings_skip_def to_double_exact)
qed

lemma getBookings_returns:
  "0 \<le> getBookings_skip a \<Longrightarrow>
   getBookings st a =
     Inr \<lparr>r_bookings = take (nat (getBookings_take a)) (drop (nat (getBookings_skip a))
             (newest_first (matching st (getBookings_where a)))),
          r_bookingCount = length (matching st (getBookings_where a))\<rparr>"
  by (simp add: getBookings_def db_booking_findMany_def db_booking_count_def)

lemma getBookings_refused:
  "getBookings_skip a < 0 \<Longrightarrow> getBookings st a = Inl StoreError"
  by (simp add: getBookings_def db_booking_findMany_def)

lemma page_q_props:
  "getBookings_page (a\<lparr>a_page := Some q\<rparr>) = q"
  "getBookings_perPage (a\<lparr>a_page := Some q\<rparr>) = getBookings_perPage a"
  by (simp_all add: getBookings_page_def getBookings_perPage_def)

lemma skip_of_page_exact:
  assumes "\<bar>q\<bar> < 2 ^ 53" "\<bar>(q - 1) * getBookings_perPage a\<bar> < 2 ^ 53"
  shows "getBookings_skip (a\<lparr>a_page := Some q\<rparr>) =
     (if q > 1 then (q - 1) * getBookings_perPage a else 0)"
proof (cases "q > 1")
  case True
  then show ?thesis
    using skip_exact [of "a\<lparr>a_page := Some q\<rparr>"] assms by (simp add: page_q_props)
next
  case False
  then show ?thesis
    by (simp add: getBookings_skip_def page_q_props)
qed

text \<open>
  Claim C10, as stated, fails for a negative \<^verbatim>\<open>perPage\<close>: on page 3 with \<^verbatim>\<open>perPage\<close> -5
  the skip is -10, the store refuses the query, and \<^verbatim>\<open>getBookings\<close> returns no page;
  nothing is skipped and nothing is omitted in silence.
\<close>

theorem getBookings_skip_refused:
  "getBookings_page (paged 3 (- 5)) = 3
   \<and> getBookings_perPage (paged 3 (- 5)) = - 5
   \<and> getBookings_skip (paged 3 (- 5)) = - 10
   \<and> getBookings (store_many 25) (paged 3 (- 5)) = Inl StoreError"
proof -
  have p: "getBookings_page (paged 3 (- 5)) = 3"
    and pp: "getBookings_perPage (paged 3 (- 5)) = - 5"
    by (simp_all add: getBookings_page_def getBookings_perPage_def paged_def)
  have sk: "getBookings_skip (paged 3 (- 5)) = - 10"
    by (simp add: paged_skip_take to_double_exact)
  then have "getBookings (store_many 25) (paged 3 (- 5)) = Inl StoreError"
    by (simp add: getBookings_refused)
  with p pp sk show ?thesis by simp
qed

text \<open>
  Claim C10, amended. For every page after the first and every \<^verbatim>\<open>perPage\<close>, the skip
  is \<open>(page - 1) * perPage\<close>, computed from the argument as given (page and product
  below \<open>2 ^ 53\<close>, where the numbers of JavaScript are exact). For \<^verbatim>\<open>perPage\<close> from 1 to
  100 that is the step of the page size. Outside it is not: the page size is 20. For
  \<^verbatim>\<open>perPage\<close> above 100 the page returned is the 20 matches after the skipped ones, at
  most, and no page shows the matches at the positions from 20 up to \<^verbatim>\<open>perPage\<close> (counted
  from 0, newest first; page \<open>q\<close> shows the positions \<open>skip + i\<close> for \<open>i\<close> below 20). For
  \<^verbatim>\<open>perPage\<close> 0 nothing is skipped and every page is the 20 newest matches. For a
  negative \<^verbatim>\<open>perPage\<close> the skip is negative and the call fails with the error of the
  store. With 25 bookings and \<^verbatim>\<open>perPage\<close> 250, page 1 shows 20 of them and page 2 none.
\<close>

theorem getBookings_skip_raw:
  assumes page: "getBookings_page a > 1"
    and exact: "\<bar>getBookings_page a\<bar> < 2 ^ 53"
      "\<bar>(getBookings_page a - 1) * getBookings_perPage a\<bar> < 2 ^ 53"
  shows
    "getBookings_skip a = (getBookings_page a - 1) * getBookings_perPage a
     \<and> (1 \<le> getBookings_perPage a \<and> getBookings_perPage a \<le> 100 \<longrightarrow>
          getBookings_skip a = (getBookings_page a - 1) * getBookings_take a)
     \<and> (getBookings_perPage a < 1 \<or> getBookings_perPage a > 100 \<longrightarrow>
          getBookings_take a = 20
          \<and> getBookings_skip a \<noteq> (getBookings_page a - 1) * getBookings_take a)
     \<and> (getBookings_perPage a > 100 \<longrightarrow>
          (\<forall>st. getBookings st a =
             Inr \<lparr>r_bookings =
                    take 20 (drop (nat ((getBookings_page a - 1) * getBookings_perPage a))
                      (newest_first (matching st (getBookings_where a)))),
                  r_bookingCount = length (matching st (getBookings_where a))\<rparr>)
          \<and> (\<forall>k q i. 20 \<le> k \<and> k < getBookings_perPage a \<and> 0 \<le> i \<and> i < 20
                \<and> \<bar>q\<bar> < 2 ^ 53 \<and> \<bar>(q - 1) * getBookings_perPage a\<bar> < 2 ^ 53 \<longrightarrow>
                getBookings_skip (a\<lparr>a_page := Some q\<rparr>) + i \<noteq> k))
     \<and> (getBookings_perPage a = 0 \<longrightarrow>
          (\<forall>st. getBookings st a =
             Inr \<lparr>r_bookings = take 20 (newest_first (matching st (getBookings_where a))),
                  r_bookingCount = length (matching st (getBookings_where a))\<rparr>))
     \<and> (getBookings_perPage a < 0 \<longrightarrow> (\<forall>st. getBookings st a = Inl StoreError))"
proof -
  have sk: "getBookings_skip a = (getBookings_page a - 1) * getBookings_perPage a"
    using page exact by (rule skip_exact)
  have inr: "1 \<le> getBookings_perPage a \<and> getBookings_perPage a \<le> 100 \<longrightarrow>
          getBookings_skip a = (getBookings_page a - 1) * getBookings_take a"
    by (simp add: sk getBookings_take_def)
  have "((getBookings_page a - 1) * getBookings_perPage a = (getBookings_page a - 1) * 20) =
      (getBookings_page a - 1 = 0 \<or> getBookings_perPage a = 20)"
    by (rule mult_cancel_left)
  then have out: "getBookings_perPage a < 1 \<or> getBookings_perPage a > 100 \<longrightarrow>
          getBookings_take a = 20
          \<and> getBookings_skip a \<noteq> (getBookings_page a - 1) * getBookings_take a"
    unfolding sk using page by (auto simp: getBookings_take_def)
  have big: "getBookings_perPage a > 100 \<longrightarrow>
          (\<forall>st. getBookings st a =
             Inr \<lparr>r_bookings =
                    take 20 (drop (nat ((getBookings_page a - 1) * getBookings_perPage a))
                      (newest_first (matching st (getBookings_where a)))),
                  r_bookingCount = length (matching st (getBookings_where a))\<rparr>)
          \<and> (\<forall>k q i. 20 \<le> k \<and> k < getBookings_perPage a \<and> 0 \<le> i \<and> i < 20
                \<and> \<bar>q\<bar> < 2 ^ 53 \<and> \<bar>(q - 1) * getBookings_perPage a\<bar> < 2 ^ 53 \<longrightarrow>
                getBookings_skip (a\<lparr>a_page := Some q\<rparr>) + i \<noteq> k)"
  proof
    assume b: "getBookings_perPage a > 100"
    then have tk: "getBookings_take a = 20"
      by (simp add: getBookings_take_def)
    have "0 \<le> (getBookings_page a - 1) * getBookings_perPage a"
      using page b by simp
    then have "0 \<le> getBookings_skip a"
      by (simp add: sk)
    then have ret: "\<forall>st. getBookings st a =
             Inr \<lparr>r_bookings =
                    take 20 (drop (nat ((getBookings_page a - 1) * getBookings_perPage a))
                      (newest_first (matching st (getBookings_where a)))),
                  r_bookingCount = length (matching st (getBookings_where a))\<rparr>"
      using getBookings_returns [of a] by (simp add: sk tk)
    have om: "\<forall>k q i. 20 \<le> k \<and> k < getBookings_perPage a \<and> 0 \<le> i \<and> i < 20
                \<and> \<bar>q\<bar> < 2 ^ 53 \<and> \<bar>(q - 1) * getBookings_perPage a\<bar> < 2 ^ 53 \<longrightarrow>
                getBookings_skip (a\<lparr>a_page := Some q\<rparr>) + i \<noteq> k"
      using position_on_no_page [OF b] by (simp add: skip_of_page_exact)
    from ret om show "(\<forall>st. getBookings st a =
             Inr \<lparr>r_bookings =
                    take 20 (drop (nat ((getBookings_page a - 1) * getBookings_perPage a))
                      (newest_first (matching st (getBookings_where a)))),
                  r_bookingCount = length (matching st (getBookings_where a))\<rparr>)
          \<and> (\<forall>k q i. 20 \<le> k \<and> k < getBookings_perPage a \<and> 0 \<le> i \<and> i < 20
                \<and> \<bar>q\<bar> < 2 ^ 53 \<and> \<bar>(q - 1) * getBookings_perPage a\<bar> < 2 ^ 53 \<longrightarrow>
                getBookings_skip (a\<lparr>a_page := Some q\<rparr>) + i \<noteq> k)"
      by blast
  qed
  have zero: "getBookings_perPage a = 0 \<longrightarrow>
          (\<forall>st. getBookings st a =
             Inr \<lparr>r_bookings = take 20 (newest_first (matching st (getBookings_where a))),
                  r_bookingCount = length (matching st (getBookings_where a))\<rparr>)"
  proof
    assume z: "getBookings_perPage a = 0"
    then have "getBookings_skip a = 0" "getBookings_take a = 20"
      by (simp_all add: sk getBookings_take_def)
    then show "\<forall>st. getBookings st a =
             Inr \<lparr>r_bookings = take 20 (newest_first (matching st (getBookings_where a))),
                  r_bookingCount = length (matching st (getBookings_where a))\<rparr>"
      using getBookings_returns [of a] by simp
  qed
  have neg: "getBookings_perPage a < 0 \<longrightarrow> (\<forall>st. getBookings st a = Inl StoreError)"
  proof
    assume n: "getBookings_perPage a < 0"
    have "(getBookings_page a - 1) * getBookings_perPage a < 0"
      using page n by (intro mult_pos_neg) simp_all
    then show "\<forall>st. getBookings st a = Inl StoreError"
      by (simp add: sk getBookings_refused)
  qed
  show ?thesis
    by (intro conjI sk inr out big zero neg)
qed

theorem getBookings_skip_raw_witness:
  "getBookings_page (paged 2 250) = 2 \<and> getBookings_perPage (paged 2 250) = 250
   \<and> \<bar>(2::int)\<bar> < 2 ^ 53 \<and> \<bar>(2 - 1) * (250::int)\<bar> < 2 ^ 53
   \<and> getBookings_skip (paged 2 250) = 250 \<and> getBookings_take (paged 2 250) = 20
   \<and> map_sum id (\<lambda>r. (length (r_bookings r), r_bookingCount r))
        (getBookings (store_many 25) (paged 1 250)) = Inr (20, 25)
   \<and> getBookings (store_many 25) (paged 2 250) = Inr \<lparr>r_bookings = [], r_bookingCount = 25\<rparr>"
proof -
  have p: "getBookings_page (paged 2 250) = 2" and pp: "getBookings_perPage (paged 2 250) = 250"
    by (simp_all add: getBookings_page_def getBookings_perPage_def paged_def)
  have page: "getBookings_page (paged 2 250) > 1"
    and e1: "\<bar>getBookings_page (paged 2 250)\<bar> < 2 ^ 53"
    and e2: "\<bar>(getBookings_page (paged 2 250) - 1) * getBookings_perPage (paged 2 250)\<bar> < 2 ^ 53"
    by (simp_all add: p pp)
  have b1: "\<bar>(2::int)\<bar> < 2 ^ 53" and b2: "\<bar>(2 - 1) * (250::int)\<bar> < 2 ^ 53"
    by simp_all
  note t = getBookings_skip_raw [OF page e1 e2]
  have sk: "getBookings_skip (paged 2 250) = 250" and tk: "getBookings_take (paged 2 250) = 20"
    using t by (simp_all add: p pp)
  have one: "map_sum id (\<lambda>r. (length (r_bookings r), r_bookingCount r))
        (getBookings (store_many 25) (paged 1 250)) = Inr (20, 25)"
    by (simp add: getBookings_store_many paged_skip_take length_newest_first)
  from t have "getBookings (store_many 25) (paged 2 250) =
      Inr \<lparr>r_bookings = take 20 (drop (nat ((getBookings_page (paged 2 250) - 1)
                * getBookings_perPage (paged 2 250)))
              (newest_first (matching (store_many 25) (getBookings_where (paged 2 250))))),
           r_bookingCount = length (matching (store_many 25) (getBookings_where (paged 2 250)))\<rparr>"
    by (simp add: pp)
  then have two: "getBookings (store_many 25) (paged 2 250) =
      Inr \<lparr>r_bookings = [], r_bookingCount = 25\<rparr>"
    by (simp add: p pp matching_store_many length_newest_first)
  show ?thesis
    by (intro conjI p pp b1 b2 sk tk one two)
qed

end
